theory Spec2Isabelle
  imports Main "HOL-Library.Word"
begin

section \<open>The streaming recording session coordinator of \<^verbatim>\<open>scribe-ai/server.ts\<close>\<close>

text \<open>
  The theory embeds the Socket.IO event handlers and the completion pipeline
  \<^verbatim>\<open>processRecordingWithGemini\<close> of \<^verbatim>\<open>src/scribe-ai/server.ts\<close>.

  \<^item> The module-level \<^verbatim>\<open>activeRecordings\<close> map, the \<^verbatim>\<open>Recording\<close> table behind
    \<^verbatim>\<open>prisma.recording\<close>, the events handed to \<^verbatim>\<open>socket.emit\<close> / \<^verbatim>\<open>io.emit\<close>
    and the suspended invocations of the asynchronous functions form one explicit state.
  \<^item> A handler body runs to completion on the single-threaded event loop; an
    \<^verbatim>\<open>async\<close> function runs synchronously up to its first \<^verbatim>\<open>await\<close>. Each
    \<^verbatim>\<open>await\<close> of the pipeline and of the pause and resume handlers is therefore a
    suspension point: the invocation is parked as a \<open>task\<close> and continued by
    \<open>resume\<close> when the awaited promise settles, with whatever other handlers ran in
    between.
  \<^item> \<^verbatim>\<open>Date.now()\<close> is a parameter (milliseconds, an \<open>int\<close>) of whoever reads it.
  \<^item> Logging has no effect on the state and is left out.
\<close>

subsection \<open>Data\<close>

text \<open>An audio buffer (\<^verbatim>\<open>ArrayBuffer\<close>, \<^verbatim>\<open>Blob\<close>) is its sequence of bytes.\<close>

type_synonym blob = "8 word list"

text \<open>
  A value caught by \<^verbatim>\<open>catch (error)\<close>: an \<^verbatim>\<open>Error\<close> object with its message, or
  anything else.
\<close>

datatype thrown = Error string | NonError

text \<open>\<^verbatim>\<open>error instanceof Error ? error.message : fallback\<close>\<close>

fun message_or :: "thrown \<Rightarrow> string \<Rightarrow> string" where
  "message_or (Error m) fallback = m"
| "message_or NonError fallback = fallback"

text \<open>How an awaited promise settles.\<close>

datatype settled = Fulfilled string | Rejected thrown

text \<open>The value type of \<^verbatim>\<open>activeRecordings\<close>.\<close>

record recording_data =
  socketId :: string
  startTime :: int
  chunks :: "blob list"
  isPaused :: bool

text \<open>
  The columns of the \<^verbatim>\<open>Recording\<close> table that the coordinator reads or writes, and
  the table's status enum (\<^verbatim>\<open>RecordingStatus\<close> of the migration).
\<close>

datatype RecordingStatus = ACTIVE | RECORDING | PAUSED | PROCESSING | COMPLETED

record recording_row =
  status :: RecordingStatus
  transcript :: "string option"
  summary :: "string option"
  duration :: "int option"

text \<open>The payload of \<^verbatim>\<open>audio-chunk\<close> (\<^verbatim>\<open>AudioChunkData\<close>; the optional timestamp is never read).\<close>

record AudioChunkData =
  recordingId :: string
  chunk :: blob
  isFinal :: bool

text \<open>
  \<^verbatim>\<open>ServerToClientEvents\<close>, constructor arguments in the order of the payload's
  fields. The ISO timestamp of \<^verbatim>\<open>transcription-update\<close> is kept as the clock
  reading it is printed from.
\<close>

datatype server_event =
    TranscriptionUpdate string string int bool
  | RecordingCompleted string string string int
  | RecordingError string string
  | RecordingStatusEvent string string
  | AudioChunkReceived string bool

text \<open>\<^verbatim>\<open>io.emit\<close> addresses every connected client, \<^verbatim>\<open>socket.emit\<close> one socket.\<close>

datatype target = Broadcast | ToSocket string

text \<open>
  A suspended invocation, named after the call it awaits, with the local variables
  that are live at that point: the first five are the suspension points of
  \<^verbatim>\<open>processRecordingWithGemini\<close>, the last two those of the \<^verbatim>\<open>pause-recording\<close>
  and \<^verbatim>\<open>resume-recording\<close> handlers (socket and \<^verbatim>\<open>recordingId\<close>).
\<close>

datatype task =
    AwaitFindUnique string int blob
  | AwaitTranscribe string int blob
  | AwaitSummary string int string
  | AwaitUpdate string int string string
  | AwaitErrorUpdate string thrown
  | AwaitPauseUpdate string string
  | AwaitResumeUpdate string string

record state =
  activeRecordings :: "string \<rightharpoonup> recording_data"
  recordings :: "string \<rightharpoonup> recording_row"
  emitted :: "(target \<times> server_event) list"
  pending :: "task list"

definition emit :: "target \<Rightarrow> server_event \<Rightarrow> state \<Rightarrow> state" where
  "emit tg ev s = s\<lparr>emitted := emitted s @ [(tg, ev)]\<rparr>"

text \<open>\<^verbatim>\<open>activeRecordings.delete(recordingId)\<close>\<close>

definition delete_recording :: "string \<Rightarrow> state \<Rightarrow> state" where
  "delete_recording rid s = s\<lparr>activeRecordings := (activeRecordings s)(rid := None)\<rparr>"

text \<open>
  The clients an emitted event is delivered to, given the set of connected sockets
  (Socket.IO's contract for \<^verbatim>\<open>io.emit\<close> and \<^verbatim>\<open>socket.emit\<close>).
\<close>

fun recipients :: "string set \<Rightarrow> target \<Rightarrow> string set" where
  "recipients connected Broadcast = connected"
| "recipients connected (ToSocket sock) = connected \<inter> {sock}"

subsection \<open>The persistence gateway\<close>

text \<open>
  \<^verbatim>\<open>prisma.recording.update({ where: { id }, data })\<close>: the promise rejects when the
  store fails (the rejection is then the environment's) or when no row has the id
  (Prisma's "record to update not found"); otherwise the row is overwritten with the
  given fields.
\<close>

definition record_not_found :: thrown where
  "record_not_found = Error ''Record to update not found.''"

definition prisma_update ::
  "string \<Rightarrow> (recording_row \<Rightarrow> recording_row) \<Rightarrow> settled \<Rightarrow>
   (string \<rightharpoonup> recording_row) \<Rightarrow> thrown + (string \<rightharpoonup> recording_row)" where
  "prisma_update rid f r tbl =
     (case r of
        Rejected e \<Rightarrow> Inl e
      | Fulfilled _ \<Rightarrow>
          (case tbl rid of
             None \<Rightarrow> Inl record_not_found
           | Some row \<Rightarrow> Inr (tbl(rid \<mapsto> f row))))"

subsection \<open>The completion pipeline\<close>

text \<open>
  The synchronous head of \<^verbatim>\<open>processRecordingWithGemini\<close>, up to its first
  \<^verbatim>\<open>await\<close>. A \<^verbatim>\<open>throw\<close> inside the \<^verbatim>\<open>try\<close> enters the \<^verbatim>\<open>catch\<close> block, whose
  first statement awaits the error update. The entry's \<^verbatim>\<open>startTime\<close> is read later
  through the reference \<^verbatim>\<open>recordingData\<close>; no code assigns it after creation, so the
  task carries its value. \<^verbatim>\<open>new Blob(recordingData.chunks)\<close> concatenates the chunks.
\<close>

definition processRecordingWithGemini :: "string \<Rightarrow> state \<Rightarrow> state" where
  "processRecordingWithGemini rid s =
     (case activeRecordings s rid of
        None \<Rightarrow>
          s\<lparr>pending := pending s @
            [AwaitErrorUpdate rid (Error ''No audio chunks available for processing'')]\<rparr>
      | Some recordingData \<Rightarrow>
          if chunks recordingData = [] then
            s\<lparr>pending := pending s @
              [AwaitErrorUpdate rid (Error ''No audio chunks available for processing'')]\<rparr>
          else
            (let combinedBlob = concat (chunks recordingData);
                 s1 = emit Broadcast (RecordingStatusEvent rid ''PROCESSING'') s
             in s1\<lparr>pending := pending s1 @
                  [AwaitFindUnique rid (startTime recordingData) combinedBlob]\<rparr>))"

text \<open>
  The fields written by the two updates of the pipeline.
\<close>

definition completed_fields :: "string \<Rightarrow> string \<Rightarrow> int \<Rightarrow> recording_row \<Rightarrow> recording_row" where
  "completed_fields tr su d row =
     row\<lparr>status := COMPLETED, transcript := Some tr, summary := Some su, duration := Some d\<rparr>"

definition error_fields :: "thrown \<Rightarrow> recording_row \<Rightarrow> recording_row" where
  "error_fields e row =
     row\<lparr>status := COMPLETED,
         transcript := Some ''Error: Failed to transcribe audio. Please check server logs.'',
         summary := Some (''Processing failed: '' @ message_or e ''Unknown error'')\<rparr>"

text \<open>
  The continuation of a suspended invocation once its promise has settled; \<open>now\<close> is
  the clock at that moment. The result is the new state and the next suspension, or
  \<open>None\<close> when the function has returned. A rejection at any \<^verbatim>\<open>await\<close> of the
  \<^verbatim>\<open>try\<close> block enters the \<^verbatim>\<open>catch\<close> block. For the two adapter calls the
  fulfilled value is the text returned; for the store calls it is not used
  (\<^verbatim>\<open>findUnique\<close>'s row is looked up in the table, and only tested for null).
  The last two equations are the rest of the pause and resume handlers after their
  awaited update: the status event goes to the handler's socket when the update
  succeeded, and a rejection is logged only.
\<close>

fun resume :: "task \<Rightarrow> settled \<Rightarrow> int \<Rightarrow> state \<Rightarrow> state \<times> task option" where
  "resume (AwaitFindUnique rid st combinedBlob) (Rejected e) now s =
     (s, Some (AwaitErrorUpdate rid e))"
| "resume (AwaitFindUnique rid st combinedBlob) (Fulfilled _) now s =
     (case recordings s rid of
        None \<Rightarrow> (s, Some (AwaitErrorUpdate rid (Error ''Recording not found in database'')))
      | Some _ \<Rightarrow> (s, Some (AwaitTranscribe rid ((now - st) div 1000) combinedBlob)))"
| "resume (AwaitTranscribe rid d combinedBlob) (Rejected e) now s =
     (s, Some (AwaitErrorUpdate rid e))"
| "resume (AwaitTranscribe rid d combinedBlob) (Fulfilled tr) now s =
     (emit Broadcast (TranscriptionUpdate rid tr now True) s, Some (AwaitSummary rid d tr))"
| "resume (AwaitSummary rid d tr) (Rejected e) now s =
     (s, Some (AwaitErrorUpdate rid e))"
| "resume (AwaitSummary rid d tr) (Fulfilled su) now s =
     (s, Some (AwaitUpdate rid d tr su))"
| "resume (AwaitUpdate rid d tr su) r now s =
     (case prisma_update rid (completed_fields tr su d) r (recordings s) of
        Inl e \<Rightarrow> (s, Some (AwaitErrorUpdate rid e))
      | Inr tbl \<Rightarrow>
          (delete_recording rid
             (emit Broadcast (RecordingCompleted rid su tr d) (s\<lparr>recordings := tbl\<rparr>)),
           None))"
| "resume (AwaitErrorUpdate rid e) r now s =
     (let s1 = (case prisma_update rid (error_fields e) r (recordings s) of
                  Inl dbError \<Rightarrow> s
                | Inr tbl \<Rightarrow> s\<lparr>recordings := tbl\<rparr>)
      in (delete_recording rid
            (emit Broadcast (RecordingError rid (message_or e ''Processing failed'')) s1),
          None))"
| "resume (AwaitPauseUpdate sock rid) r now s =
     (case prisma_update rid (\<lambda>row. row\<lparr>status := PAUSED\<rparr>) r (recordings s) of
        Inl e \<Rightarrow> (s, None)
      | Inr tbl \<Rightarrow>
          (emit (ToSocket sock) (RecordingStatusEvent rid ''PAUSED'') (s\<lparr>recordings := tbl\<rparr>),
           None))"
| "resume (AwaitResumeUpdate sock rid) r now s =
     (case prisma_update rid (\<lambda>row. row\<lparr>status := RECORDING\<rparr>) r (recordings s) of
        Inl e \<Rightarrow> (s, None)
      | Inr tbl \<Rightarrow>
          (emit (ToSocket sock) (RecordingStatusEvent rid ''RECORDING'')
             (s\<lparr>recordings := tbl\<rparr>),
           None))"

text \<open>
  The event loop continues the \<open>i\<close>-th suspended invocation: its promise settled
  as \<open>r\<close>. The invocation is re-parked at its next \<^verbatim>\<open>await\<close> or leaves the list.
\<close>

definition settle :: "nat \<Rightarrow> settled \<Rightarrow> int \<Rightarrow> state \<Rightarrow> state" where
  "settle i r now s =
     (if i < length (pending s) then
        (case resume (pending s ! i) r now s of
           (s', Some t) \<Rightarrow> s'\<lparr>pending := (pending s)[i := t]\<rparr>
         | (s', None) \<Rightarrow> s'\<lparr>pending := take i (pending s) @ drop (Suc i) (pending s)\<rparr>)
      else s)"

subsection \<open>The socket event handlers\<close>

text \<open>
  \<^verbatim>\<open>socket.on('audio-chunk')\<close> on socket \<open>sock\<close>. An empty \<^verbatim>\<open>recordingId\<close> is
  falsy and throws \<^verbatim>\<open>'Invalid audio chunk data'\<close>, which the handler's own
  \<^verbatim>\<open>catch\<close> turns into a \<^verbatim>\<open>recording-error\<close>; a chunk of the declared type
  \<^verbatim>\<open>ArrayBuffer\<close> is an object and never falsy.
\<close>

definition audio_chunk :: "string \<Rightarrow> AudioChunkData \<Rightarrow> int \<Rightarrow> state \<Rightarrow> state" where
  "audio_chunk sock d now s =
     (if recordingId d = [] then
        emit (ToSocket sock) (RecordingError (recordingId d) ''Invalid audio chunk data'') s
      else
        (let blob = chunk d;
             s1 = (if activeRecordings s (recordingId d) = None then
                     s\<lparr>activeRecordings := (activeRecordings s)(recordingId d \<mapsto>
                         \<lparr>socketId = sock, startTime = now, chunks = [], isPaused = False\<rparr>)\<rparr>
                   else s);
             s2 = (case activeRecordings s1 (recordingId d) of
                     None \<Rightarrow> s1
                   | Some recording \<Rightarrow>
                       s1\<lparr>activeRecordings := (activeRecordings s1)(recordingId d \<mapsto>
                           recording\<lparr>chunks := chunks recording @ [blob]\<rparr>)\<rparr>);
             s3 = emit (ToSocket sock) (AudioChunkReceived (recordingId d) True) s2
         in if isFinal d then
              emit (ToSocket sock) (RecordingStatusEvent (recordingId d) ''PROCESSING'') s3
            else s3))"

text \<open>
  \<^verbatim>\<open>socket.on('complete-recording')\<close>. The call of the pipeline is not awaited: its
  synchronous head runs inside the handler, the rest later.
\<close>

definition complete_recording :: "string \<Rightarrow> string \<Rightarrow> state \<Rightarrow> state" where
  "complete_recording sock rid s =
     (case activeRecordings s rid of
        None \<Rightarrow>
          emit (ToSocket sock)
            (RecordingError rid ''Recording session not found. No audio chunks received.'') s
      | Some recording \<Rightarrow>
          if chunks recording = [] then
            delete_recording rid
              (emit (ToSocket sock)
                 (RecordingError rid ''No audio data received for processing'') s)
          else
            processRecordingWithGemini rid
              (emit (ToSocket sock) (RecordingStatusEvent rid ''PROCESSING'') s))"

text \<open>
  \<^verbatim>\<open>socket.on('pause-recording')\<close> and \<^verbatim>\<open>socket.on('resume-recording')\<close>, up to
  their \<^verbatim>\<open>await\<close>: the flag of the registry entry, if there is one, is set at once,
  the store update is issued and the handler is parked until it settles.
\<close>

definition set_paused :: "string \<Rightarrow> bool \<Rightarrow> state \<Rightarrow> state" where
  "set_paused rid b s =
     (case activeRecordings s rid of
        None \<Rightarrow> s
      | Some recording \<Rightarrow>
          s\<lparr>activeRecordings := (activeRecordings s)(rid \<mapsto> recording\<lparr>isPaused := b\<rparr>)\<rparr>)"

definition pause_recording :: "string \<Rightarrow> string \<Rightarrow> state \<Rightarrow> state" where
  "pause_recording sock rid s =
     (let s1 = set_paused rid True s
      in s1\<lparr>pending := pending s1 @ [AwaitPauseUpdate sock rid]\<rparr>)"

definition resume_recording :: "string \<Rightarrow> string \<Rightarrow> state \<Rightarrow> state" where
  "resume_recording sock rid s =
     (let s1 = set_paused rid False s
      in s1\<lparr>pending := pending s1 @ [AwaitResumeUpdate sock rid]\<rparr>)"


text \<open>
  The clean-up of the \<^verbatim>\<open>setInterval\<close> callback, which the timer runs every
  \<open>cleanup_interval\<close> milliseconds: every entry whose \<^verbatim>\<open>startTime\<close> lies before
  \<^verbatim>\<open>Date.now() - 60 * 60 * 1000\<close> is deleted.
\<close>

definition cleanup_interval :: int where
  "cleanup_interval = 60000"

definition cleanup :: "int \<Rightarrow> state \<Rightarrow> state" where
  "cleanup now s =
     (let oneHourAgo = now - 60 * 60 * 1000
      in s\<lparr>activeRecordings := (\<lambda>rid.
           case activeRecordings s rid of
             None \<Rightarrow> None
           | Some recording \<Rightarrow>
               if startTime recording < oneHourAgo then None else Some recording)\<rparr>)"

subsection \<open>Runs\<close>

text \<open>The server after start-up, over a given \<^verbatim>\<open>Recording\<close> table.\<close>

definition started :: "(string \<rightharpoonup> recording_row) \<Rightarrow> state" where
  "started tbl = \<lparr>activeRecordings = Map.empty, recordings = tbl, emitted = [], pending = []\<rparr>"

text \<open>A run of \<^verbatim>\<open>audio-chunk\<close> events, each with its socket and its arrival time.\<close>

fun audio_chunks :: "(string \<times> AudioChunkData \<times> int) list \<Rightarrow> state \<Rightarrow> state" where
  "audio_chunks [] s = s"
| "audio_chunks ((sock, d, now) # evs) s = audio_chunks evs (audio_chunk sock d now s)"

text \<open>The event loop continues suspended invocations one after the other.\<close>

fun settles :: "(nat \<times> settled \<times> int) list \<Rightarrow> state \<Rightarrow> state" where
  "settles [] s = s"
| "settles ((i, r, now) # rs) s = settles rs (settle i r now s)"

text \<open>
  The timer: \<open>n\<close> sweeps in a row with no other event between them, the first at
  time \<open>t\<close>, each \<open>cleanup_interval\<close> after the one before.
\<close>

fun periodic_cleanup :: "int \<Rightarrow> nat \<Rightarrow> state \<Rightarrow> state" where
  "periodic_cleanup t 0 s = s"
| "periodic_cleanup t (Suc n) s = periodic_cleanup (t + cleanup_interval) n (cleanup t s)"

subsection \<open>Scenarios\<close>

text \<open>A durable record as the REST route creates it when a recording starts.\<close>

definition row_recording :: recording_row where
  "row_recording = \<lparr>status = RECORDING, transcript = None, summary = None, duration = None\<rparr>"

text \<open>
  Session \<open>abc\<close> of socket \<open>s1\<close>: three chunks arrive at 1000, 2000 and 3000 ms, the
  last one final; then \<^verbatim>\<open>complete-recording\<close>.
\<close>

definition three_chunks :: "(string \<times> AudioChunkData \<times> int) list" where
  "three_chunks =
     [(''s1'', \<lparr>recordingId = ''abc'', chunk = [1, 2], isFinal = False\<rparr>, 1000),
      (''s1'', \<lparr>recordingId = ''abc'', chunk = [3], isFinal = False\<rparr>, 2000),
      (''s1'', \<lparr>recordingId = ''abc'', chunk = [4, 5], isFinal = True\<rparr>, 3000)]"

definition chunks_received :: state where
  "chunks_received = audio_chunks three_chunks (started [''abc'' \<mapsto> row_recording])"

definition completing :: state where
  "completing = complete_recording ''s1'' ''abc'' chunks_received"

text \<open>The store finds the record, the adapter transcribes and summarises.\<close>

definition summarised :: state where
  "summarised =
     settles [(0, Fulfilled [], 5000), (0, Fulfilled ''hello'', 6000),
              (0, Fulfilled ''greeting'', 7000)] completing"

text \<open>A second \<^verbatim>\<open>complete-recording\<close> right after the first; then both invocations run.\<close>

definition completing_twice :: state where
  "completing_twice = complete_recording ''s1'' ''abc'' completing"

definition both_finished :: state where
  "both_finished =
     settles [(0, Fulfilled [], 5000), (0, Fulfilled ''hello'', 6000),
              (0, Fulfilled ''greeting'', 7000), (0, Fulfilled [], 8000),
              (0, Fulfilled [], 8100), (0, Fulfilled ''hello'', 8200),
              (0, Fulfilled ''greeting'', 8300), (0, Fulfilled [], 8400)] completing_twice"

text \<open>The single run ends: the final update succeeds, or the store is down.\<close>

definition finished :: state where
  "finished = settle 0 (Fulfilled []) 8000 summarised"

definition write_failed :: state where
  "write_failed =
     settles [(0, Rejected (Error ''Connection lost''), 8000),
              (0, Rejected (Error ''Connection lost''), 8100)] summarised"

text \<open>The adapter's transcription call rejects; the error update succeeds.\<close>

definition transcribe_failed :: state where
  "transcribe_failed =
     settles [(0, Fulfilled [], 5000),
              (0, Rejected (Error ''API key not valid: AIza-secret''), 6000),
              (0, Fulfilled [], 6100)] completing"

text \<open>One more chunk for \<open>abc\<close>, while its pipeline is suspended and after it has ended.\<close>

definition late_chunk :: AudioChunkData where
  "late_chunk = \<lparr>recordingId = ''abc'', chunk = [6], isFinal = False\<rparr>"



text \<open>
  A session whose first chunk arrives at time 0. The timer sweeps at 1 ms and every
  60 seconds from then on, sixty times up to 3540001 ms; a further chunk arrives at
  3600000 ms, one millisecond before the next sweep is due.
\<close>

definition first_hour :: state where
  "first_hour =
     periodic_cleanup 1 60
       (audio_chunk ''s1'' \<lparr>recordingId = ''abc'', chunk = [1], isFinal = False\<rparr> 0
          (started Map.empty))"

definition long_session :: state where
  "long_session =
     audio_chunk ''s1'' \<lparr>recordingId = ''abc'', chunk = [2], isFinal = False\<rparr> 3600000
       first_hour"

text \<open>Socket \<open>s2\<close> sends a chunk for the session that socket \<open>s1\<close> started.\<close>

definition foreign_chunk :: state where
  "foreign_chunk = audio_chunk ''s2'' late_chunk 4000 chunks_received"

section \<open>Properties\<close>

subsection \<open>Shared facts about the handlers\<close>

lemma audio_chunk_entry:
  "recordingId d \<noteq> [] \<Longrightarrow>
   activeRecordings (audio_chunk sock d now s) =
     (activeRecordings s)(recordingId d \<mapsto>
        (case activeRecordings s (recordingId d) of
           None \<Rightarrow> \<lparr>socketId = sock, startTime = now, chunks = [chunk d], isPaused = False\<rparr>
         | Some recording \<Rightarrow> recording\<lparr>chunks := chunks recording @ [chunk d]\<rparr>))"
  by (auto simp: audio_chunk_def emit_def Let_def split: option.splits)

lemma audio_chunk_pending: "pending (audio_chunk sock d now s) = pending s"
  by (auto simp: audio_chunk_def emit_def Let_def split: option.splits)


lemma audio_chunk_emitted:
  "emitted (audio_chunk sock d now s) =
     emitted s @ map (Pair (ToSocket sock))
       (if recordingId d = [] then [RecordingError (recordingId d) ''Invalid audio chunk data'']
        else if isFinal d then
          [AudioChunkReceived (recordingId d) True,
           RecordingStatusEvent (recordingId d) ''PROCESSING'']
        else [AudioChunkReceived (recordingId d) True])"
  by (auto simp: audio_chunk_def emit_def Let_def split: option.splits)

lemma audio_chunks_pending: "pending (audio_chunks evs s) = pending s"
  by (induction evs s rule: audio_chunks.induct) (simp_all add: audio_chunk_pending)

lemma audio_chunks_append:
  "rid \<noteq> [] \<Longrightarrow> list_all (\<lambda>e. recordingId (fst (snd e)) = rid) evs \<Longrightarrow>
   activeRecordings s rid = Some recording \<Longrightarrow>
   activeRecordings (audio_chunks evs s) rid =
     Some (recording\<lparr>chunks := chunks recording @ map (\<lambda>e. chunk (fst (snd e))) evs\<rparr>)"
proof (induction evs arbitrary: s recording)
  case Nil
  then show ?case by simp
next
  case (Cons e evs)
  obtain sock d now where e: "e = (sock, d, now)" by (cases e)
  from Cons.prems e have d: "recordingId d = rid" by simp
  have step: "activeRecordings (audio_chunk sock d now s) rid =
      Some (recording\<lparr>chunks := chunks recording @ [chunk d]\<rparr>)"
    using Cons.prems(1,3) d by (simp add: audio_chunk_entry)
  from Cons.prems have rest: "list_all (\<lambda>e. recordingId (fst (snd e)) = rid) evs" by simp
  show ?case
    using Cons.IH [OF Cons.prems(1) rest step] e by simp
qed

lemma audio_chunks_fresh:
  assumes rid: "rid \<noteq> []"
    and all: "list_all (\<lambda>e. recordingId (fst (snd e)) = rid) evs"
    and ne: "evs \<noteq> []"
    and fresh: "activeRecordings s rid = None"
  shows "activeRecordings (audio_chunks evs s) rid =
     Some \<lparr>socketId = fst (hd evs), startTime = snd (snd (hd evs)),
           chunks = map (\<lambda>e. chunk (fst (snd e))) evs, isPaused = False\<rparr>"
proof (cases evs)
  case Nil
  with ne show ?thesis by simp
next
  case (Cons e rest)
  obtain sock d now where e: "e = (sock, d, now)" by (cases e)
  from all Cons e have d: "recordingId d = rid"
    and rest: "list_all (\<lambda>e. recordingId (fst (snd e)) = rid) rest" by simp_all
  have step: "activeRecordings (audio_chunk sock d now s) rid =
      Some \<lparr>socketId = sock, startTime = now, chunks = [chunk d], isPaused = False\<rparr>"
    using rid fresh d by (simp add: audio_chunk_entry)
  show ?thesis
    using audio_chunks_append [OF rid rest step] Cons e by simp
qed

lemma complete_recording_buffered:
  "activeRecordings s rid = Some recording \<Longrightarrow> chunks recording \<noteq> [] \<Longrightarrow>
   complete_recording sock rid s =
     s\<lparr>emitted := emitted s @
          [(ToSocket sock, RecordingStatusEvent rid ''PROCESSING''),
           (Broadcast, RecordingStatusEvent rid ''PROCESSING'')],
       pending := pending s @
          [AwaitFindUnique rid (startTime recording) (concat (chunks recording))]\<rparr>"
  by (simp add: complete_recording_def processRecordingWithGemini_def emit_def Let_def)

lemma complete_recording_absent:
  "activeRecordings s rid = None \<Longrightarrow>
   complete_recording sock rid s =
     s\<lparr>emitted := emitted s @
          [(ToSocket sock,
            RecordingError rid ''Recording session not found. No audio chunks received.'')]\<rparr>"
  by (simp add: complete_recording_def emit_def)

lemma complete_recording_empty:
  "activeRecordings s rid = Some recording \<Longrightarrow> chunks recording = [] \<Longrightarrow>
   complete_recording sock rid s =
     s\<lparr>activeRecordings := (activeRecordings s)(rid := None),
       emitted := emitted s @
          [(ToSocket sock, RecordingError rid ''No audio data received for processing'')]\<rparr>"
  by (simp add: complete_recording_def emit_def delete_recording_def)

lemma chunks_received_eq:
  "chunks_received =
     \<lparr>activeRecordings =
        [''abc'' \<mapsto> \<lparr>socketId = ''s1'', startTime = 1000, chunks = [[1, 2], [3], [4, 5]],
                     isPaused = False\<rparr>],
      recordings = [''abc'' \<mapsto> row_recording],
      emitted =
        [(ToSocket ''s1'', AudioChunkReceived ''abc'' True),
         (ToSocket ''s1'', AudioChunkReceived ''abc'' True),
         (ToSocket ''s1'', AudioChunkReceived ''abc'' True),
         (ToSocket ''s1'', RecordingStatusEvent ''abc'' ''PROCESSING'')],
      pending = []\<rparr>"
  by (simp add: chunks_received_def three_chunks_def started_def audio_chunk_def emit_def)

lemma completing_eq:
  "completing =
     chunks_received\<lparr>emitted := emitted chunks_received @
          [(ToSocket ''s1'', RecordingStatusEvent ''abc'' ''PROCESSING''),
           (Broadcast, RecordingStatusEvent ''abc'' ''PROCESSING'')],
       pending := [AwaitFindUnique ''abc'' 1000 [1, 2, 3, 4, 5]]\<rparr>"
  unfolding completing_def
  by (subst complete_recording_buffered
        [where recording = "\<lparr>socketId = ''s1'', startTime = 1000,
           chunks = [[1, 2], [3], [4, 5]], isPaused = False\<rparr>"])
     (simp_all add: chunks_received_eq)

lemma summarised_eq:
  "summarised =
     chunks_received\<lparr>emitted := emitted chunks_received @
          [(ToSocket ''s1'', RecordingStatusEvent ''abc'' ''PROCESSING''),
           (Broadcast, RecordingStatusEvent ''abc'' ''PROCESSING''),
           (Broadcast, TranscriptionUpdate ''abc'' ''hello'' 6000 True)],
       pending := [AwaitUpdate ''abc'' 4 ''hello'' ''greeting'']\<rparr>"
  by (simp add: summarised_def completing_eq chunks_received_eq settle_def emit_def)

subsection \<open>Chunk ingestion\<close>

text \<open>
  Claim C4. For every non-empty run of \<^verbatim>\<open>audio-chunk\<close> events for one session
  (a non-empty \<^verbatim>\<open>recordingId\<close>, as the handler requires) that is not yet in the
  registry, whatever their \<^verbatim>\<open>isFinal\<close> flags (so also \<open>false, \<dots>, false, true\<close>), the
  registry entry afterwards buffers exactly the chunks sent, as many as were sent and in
  the order received; and the completion pipeline started on that state hands the
  transcription their concatenation in that order.
\<close>

theorem chunks_buffered_in_order:
  assumes "rid \<noteq> []"
    and "evs \<noteq> []"
    and "list_all (\<lambda>e. recordingId (fst (snd e)) = rid) evs"
    and "activeRecordings s rid = None"
  shows "(\<exists>recording.
            activeRecordings (audio_chunks evs s) rid = Some recording \<and>
            chunks recording = map (\<lambda>e. chunk (fst (snd e))) evs \<and>
            length (chunks recording) = length evs) \<and>
         pending (processRecordingWithGemini rid (audio_chunks evs s)) =
           pending s @
             [AwaitFindUnique rid (snd (snd (hd evs)))
                (concat (map (\<lambda>e. chunk (fst (snd e))) evs))]"
proof -
  let ?recording = "\<lparr>socketId = fst (hd evs), startTime = snd (snd (hd evs)),
      chunks = map (\<lambda>e. chunk (fst (snd e))) evs, isPaused = False\<rparr>"
  have entry: "activeRecordings (audio_chunks evs s) rid = Some ?recording"
    using assms by (simp add: audio_chunks_fresh)
  have "pending (processRecordingWithGemini rid (audio_chunks evs s)) =
      pending (audio_chunks evs s) @
        [AwaitFindUnique rid (snd (snd (hd evs)))
           (concat (map (\<lambda>e. chunk (fst (snd e))) evs))]"
    using entry assms(2) by (simp add: processRecordingWithGemini_def emit_def Let_def)
  with entry show ?thesis
    by (simp add: audio_chunks_pending)
qed

theorem chunks_buffered_in_order_witness:
  "(\<exists>recording.
      activeRecordings chunks_received ''abc'' = Some recording \<and>
      chunks recording = [[1, 2], [3], [4, 5]] \<and> length (chunks recording) = 3) \<and>
   pending (processRecordingWithGemini ''abc'' chunks_received) =
     [AwaitFindUnique ''abc'' 1000 [1, 2, 3, 4, 5]]"
proof -
  have hyps: "''abc'' \<noteq> []" "three_chunks \<noteq> []"
    "list_all (\<lambda>e. recordingId (fst (snd e)) = ''abc'') three_chunks"
    "activeRecordings (started [''abc'' \<mapsto> row_recording]) ''abc'' = None"
    by (simp_all add: three_chunks_def started_def)
  have "pending (started [''abc'' \<mapsto> row_recording]) = []"
    by (simp add: started_def)
  with chunks_buffered_in_order [OF hyps] show ?thesis
    by (simp add: chunks_received_def three_chunks_def numeral_3_eq_3)
qed

subsection \<open>Completion without audio\<close>

text \<open>
  Claim C7. When \<^verbatim>\<open>complete-recording\<close> names a session that is absent from the
  registry or has no buffered chunk, the handler emits exactly one
  \<^verbatim>\<open>recording-error\<close>, to the requesting socket; afterwards the registry has no entry
  for the session, the \<^verbatim>\<open>Recording\<close> table is as before, and no pipeline invocation
  has been started that could write to it later.
\<close>

theorem complete_without_audio:
  assumes "activeRecordings s rid = None \<or>
           (\<exists>recording. activeRecordings s rid = Some recording \<and> chunks recording = [])"
  shows "(\<exists>reason. emitted (complete_recording sock rid s) =
            emitted s @ [(ToSocket sock, RecordingError rid reason)]) \<and>
         activeRecordings (complete_recording sock rid s) rid = None \<and>
         recordings (complete_recording sock rid s) = recordings s \<and>
         pending (complete_recording sock rid s) = pending s"
  using assms
  by (auto simp: complete_recording_absent complete_recording_empty)

theorem complete_without_audio_witness:
  "emitted (complete_recording ''s1'' ''abc'' (started [''abc'' \<mapsto> row_recording])) =
     [(ToSocket ''s1'',
       RecordingError ''abc'' ''Recording session not found. No audio chunks received.'')] \<and>
   recordings (complete_recording ''s1'' ''abc'' (started [''abc'' \<mapsto> row_recording])) ''abc'' =
     Some row_recording \<and>
   pending (complete_recording ''s1'' ''abc'' (started [''abc'' \<mapsto> row_recording])) = [] \<and>
   activeRecordings
     (complete_recording ''s1'' ''abc''
        ((started Map.empty)\<lparr>activeRecordings :=
            [''abc'' \<mapsto> \<lparr>socketId = ''s1'', startTime = 0, chunks = [], isPaused = False\<rparr>]\<rparr>))
     ''abc'' = None \<and>
   emitted
     (complete_recording ''s1'' ''abc''
        ((started Map.empty)\<lparr>activeRecordings :=
            [''abc'' \<mapsto> \<lparr>socketId = ''s1'', startTime = 0, chunks = [], isPaused = False\<rparr>]\<rparr>)) =
     [(ToSocket ''s1'', RecordingError ''abc'' ''No audio data received for processing'')]"
  using complete_without_audio
    [of "started [''abc'' \<mapsto> row_recording]" "''abc''" "''s1''"]
    complete_without_audio
    [of "(started Map.empty)\<lparr>activeRecordings :=
            [''abc'' \<mapsto> \<lparr>socketId = ''s1'', startTime = 0, chunks = [], isPaused = False\<rparr>]\<rparr>"
        "''abc''" "''s1''"]
  by (simp add: started_def complete_recording_def emit_def delete_recording_def)

subsection \<open>Who receives which event\<close>

lemma pause_recording_eq:
  "pause_recording sock rid s =
     (set_paused rid True s)\<lparr>pending := pending s @ [AwaitPauseUpdate sock rid]\<rparr>"
  by (simp add: pause_recording_def set_paused_def Let_def split: option.splits)

lemma resume_recording_eq:
  "resume_recording sock rid s =
     (set_paused rid False s)\<lparr>pending := pending s @ [AwaitResumeUpdate sock rid]\<rparr>"
  by (simp add: resume_recording_def set_paused_def Let_def split: option.splits)

lemma set_paused_frame:
  "recordings (set_paused rid b s) = recordings s"
  "emitted (set_paused rid b s) = emitted s"
  "pending (set_paused rid b s) = pending s"
  by (simp_all add: set_paused_def split: option.splits)

lemma foreign_chunk_eq:
  "foreign_chunk =
     chunks_received\<lparr>activeRecordings :=
         [''abc'' \<mapsto> \<lparr>socketId = ''s1'', startTime = 1000,
            chunks = [[1, 2], [3], [4, 5], [6]], isPaused = False\<rparr>],
       emitted := emitted chunks_received @
         [(ToSocket ''s2'', AudioChunkReceived ''abc'' True)]\<rparr>"
  by (simp add: foreign_chunk_def late_chunk_def chunks_received_eq audio_chunk_def emit_def)

text \<open>
  Claim C10, as the code has it. Every event of the completion pipeline is emitted
  with \<^verbatim>\<open>io.emit\<close> and so delivered to every connected client: the
  \<^verbatim>\<open>recording-status\<close> PROCESSING of its synchronous head (emitted exactly when the
  session has a buffered chunk), the \<^verbatim>\<open>transcription-update\<close> when the transcription
  returns, the \<^verbatim>\<open>recording-completed\<close> with transcript and summary when the final
  update succeeds, and the \<^verbatim>\<open>recording-error\<close> of the error path; the other
  continuations emit nothing. The events of the handlers themselves are emitted with
  \<^verbatim>\<open>socket.emit\<close>: the chunk acknowledgement and the PROCESSING status of a final
  chunk, the error for invalid chunk data, the status or error of
  \<^verbatim>\<open>complete-recording\<close>, and the PAUSED or RECORDING status once the update of a
  pause or resume has succeeded. They go to one socket only, the socket whose request
  is being handled, in every state of the registry: whether or not that socket is the
  one recorded as the session's owner.
\<close>

theorem pipeline_broadcasts_handlers_answer_requester:
  "emitted (processRecordingWithGemini rid s) =
     emitted s @
       (case activeRecordings s rid of
          None \<Rightarrow> []
        | Some recording \<Rightarrow>
            if chunks recording = [] then []
            else [(Broadcast, RecordingStatusEvent rid ''PROCESSING'')]) \<and>
   emitted (fst (resume (AwaitFindUnique rid st b) r now s)) = emitted s \<and>
   emitted (fst (resume (AwaitTranscribe rid d b) (Fulfilled tr) now s)) =
     emitted s @ [(Broadcast, TranscriptionUpdate rid tr now True)] \<and>
   emitted (fst (resume (AwaitTranscribe rid d b) (Rejected e) now s)) = emitted s \<and>
   emitted (fst (resume (AwaitSummary rid d tr) r now s)) = emitted s \<and>
   emitted (fst (resume (AwaitUpdate rid d tr su) r now s)) =
     emitted s @
       (case prisma_update rid (completed_fields tr su d) r (recordings s) of
          Inl x \<Rightarrow> []
        | Inr tbl \<Rightarrow> [(Broadcast, RecordingCompleted rid su tr d)]) \<and>
   (recordings s rid = Some row \<longrightarrow>
      emitted (fst (resume (AwaitUpdate rid d tr su) (Fulfilled v) now s)) =
        emitted s @ [(Broadcast, RecordingCompleted rid su tr d)]) \<and>
   emitted (fst (resume (AwaitErrorUpdate rid e) r now s)) =
     emitted s @ [(Broadcast, RecordingError rid (message_or e ''Processing failed''))] \<and>
   recipients connected Broadcast = connected \<and>
   emitted (audio_chunk sock data now s) =
     emitted s @
       (if recordingId data = [] then
          [(ToSocket sock, RecordingError (recordingId data) ''Invalid audio chunk data'')]
        else if isFinal data then
          [(ToSocket sock, AudioChunkReceived (recordingId data) True),
           (ToSocket sock, RecordingStatusEvent (recordingId data) ''PROCESSING'')]
        else [(ToSocket sock, AudioChunkReceived (recordingId data) True)]) \<and>
   emitted (complete_recording sock rid s) =
     emitted s @
       (case activeRecordings s rid of
          None \<Rightarrow>
            [(ToSocket sock,
              RecordingError rid ''Recording session not found. No audio chunks received.'')]
        | Some recording \<Rightarrow>
            if chunks recording = [] then
              [(ToSocket sock, RecordingError rid ''No audio data received for processing'')]
            else
              [(ToSocket sock, RecordingStatusEvent rid ''PROCESSING''),
               (Broadcast, RecordingStatusEvent rid ''PROCESSING'')]) \<and>
   emitted (pause_recording sock rid s) = emitted s \<and>
   emitted (resume_recording sock rid s) = emitted s \<and>
   emitted (fst (resume (AwaitPauseUpdate sock rid) r now s)) =
     emitted s @
       (case prisma_update rid (\<lambda>row. row\<lparr>status := PAUSED\<rparr>) r (recordings s) of
          Inl x \<Rightarrow> []
        | Inr tbl \<Rightarrow> [(ToSocket sock, RecordingStatusEvent rid ''PAUSED'')]) \<and>
   emitted (fst (resume (AwaitResumeUpdate sock rid) r now s)) =
     emitted s @
       (case prisma_update rid (\<lambda>row. row\<lparr>status := RECORDING\<rparr>) r (recordings s) of
          Inl x \<Rightarrow> []
        | Inr tbl \<Rightarrow> [(ToSocket sock, RecordingStatusEvent rid ''RECORDING'')]) \<and>
   recipients connected (ToSocket sock) = connected \<inter> {sock}"
proof -
  have head: "emitted (processRecordingWithGemini rid s) =
      emitted s @
        (case activeRecordings s rid of
           None \<Rightarrow> []
         | Some recording \<Rightarrow>
             if chunks recording = [] then []
             else [(Broadcast, RecordingStatusEvent rid ''PROCESSING'')])"
    by (simp add: processRecordingWithGemini_def emit_def Let_def split: option.splits)
  have found: "emitted (fst (resume (AwaitFindUnique rid st b) r now s)) = emitted s"
    by (cases r) (simp_all split: option.splits)
  have summary: "emitted (fst (resume (AwaitSummary rid d tr) r now s)) = emitted s"
    by (cases r) simp_all
  have update: "emitted (fst (resume (AwaitUpdate rid d tr su) r now s)) =
      emitted s @
        (case prisma_update rid (completed_fields tr su d) r (recordings s) of
           Inl x \<Rightarrow> []
         | Inr tbl \<Rightarrow> [(Broadcast, RecordingCompleted rid su tr d)])"
    by (simp add: emit_def delete_recording_def split: sum.splits)
  have completed: "recordings s rid = Some row \<longrightarrow>
      emitted (fst (resume (AwaitUpdate rid d tr su) (Fulfilled v) now s)) =
        emitted s @ [(Broadcast, RecordingCompleted rid su tr d)]"
    by (simp add: prisma_update_def emit_def delete_recording_def)
  have failed: "emitted (fst (resume (AwaitErrorUpdate rid e) r now s)) =
      emitted s @ [(Broadcast, RecordingError rid (message_or e ''Processing failed''))]"
    by (simp add: emit_def delete_recording_def split: sum.splits)
  have chunk: "emitted (audio_chunk sock data now s) =
      emitted s @
        (if recordingId data = [] then
           [(ToSocket sock, RecordingError (recordingId data) ''Invalid audio chunk data'')]
         else if isFinal data then
           [(ToSocket sock, AudioChunkReceived (recordingId data) True),
            (ToSocket sock, RecordingStatusEvent (recordingId data) ''PROCESSING'')]
         else [(ToSocket sock, AudioChunkReceived (recordingId data) True)])"
    by (simp add: audio_chunk_emitted)
  have complete: "emitted (complete_recording sock rid s) =
      emitted s @
        (case activeRecordings s rid of
           None \<Rightarrow>
             [(ToSocket sock,
               RecordingError rid ''Recording session not found. No audio chunks received.'')]
         | Some recording \<Rightarrow>
             if chunks recording = [] then
               [(ToSocket sock, RecordingError rid ''No audio data received for processing'')]
             else
               [(ToSocket sock, RecordingStatusEvent rid ''PROCESSING''),
                (Broadcast, RecordingStatusEvent rid ''PROCESSING'')])"
    by (simp add: complete_recording_def processRecordingWithGemini_def emit_def
        delete_recording_def Let_def split: option.splits)
  have pause: "emitted (fst (resume (AwaitPauseUpdate sock rid) r now s)) =
      emitted s @
        (case prisma_update rid (\<lambda>row. row\<lparr>status := PAUSED\<rparr>) r (recordings s) of
           Inl x \<Rightarrow> []
         | Inr tbl \<Rightarrow> [(ToSocket sock, RecordingStatusEvent rid ''PAUSED'')])"
    by (simp add: emit_def split: sum.splits)
  have unpause: "emitted (fst (resume (AwaitResumeUpdate sock rid) r now s)) =
      emitted s @
        (case prisma_update rid (\<lambda>row. row\<lparr>status := RECORDING\<rparr>) r (recordings s) of
           Inl x \<Rightarrow> []
         | Inr tbl \<Rightarrow> [(ToSocket sock, RecordingStatusEvent rid ''RECORDING'')])"
    by (simp add: emit_def split: sum.splits)
  have handlers: "emitted (pause_recording sock rid s) = emitted s"
    "emitted (resume_recording sock rid s) = emitted s"
    by (simp_all add: pause_recording_eq resume_recording_eq set_paused_frame)
  have transcribed: "emitted (fst (resume (AwaitTranscribe rid d b) (Fulfilled tr) now s)) =
      emitted s @ [(Broadcast, TranscriptionUpdate rid tr now True)]"
    "emitted (fst (resume (AwaitTranscribe rid d b) (Rejected e) now s)) = emitted s"
    by (simp_all add: emit_def)
  from head found transcribed summary update completed failed chunk complete handlers
    pause unpause
  show ?thesis
    by (simp only: recipients.simps simp_thms)
qed

theorem pipeline_broadcasts_handlers_answer_requester_witness:
  "emitted (processRecordingWithGemini ''abc'' chunks_received) =
     emitted chunks_received @ [(Broadcast, RecordingStatusEvent ''abc'' ''PROCESSING'')] \<and>
   emitted (fst (resume (AwaitUpdate ''abc'' 4 ''hello'' ''greeting'') (Fulfilled []) 8000
      summarised)) =
     emitted summarised @ [(Broadcast, RecordingCompleted ''abc'' ''greeting'' ''hello'' 4)] \<and>
   emitted (audio_chunk ''s2'' late_chunk 4000 chunks_received) =
     emitted chunks_received @ [(ToSocket ''s2'', AudioChunkReceived ''abc'' True)] \<and>
   recipients {''s1'', ''s2''} Broadcast = {''s1'', ''s2''} \<and>
   recipients {''s1'', ''s2''} (ToSocket ''s2'') = {''s2''}"
proof -
  have "activeRecordings chunks_received ''abc'' =
      Some \<lparr>socketId = ''s1'', startTime = 1000, chunks = [[1, 2], [3], [4, 5]],
            isPaused = False\<rparr>"
    and "recordings summarised ''abc'' = Some row_recording"
    and "recordingId late_chunk = ''abc''" and "isFinal late_chunk = False"
    by (simp_all add: chunks_received_eq summarised_eq late_chunk_def)
  with pipeline_broadcasts_handlers_answer_requester
      [where s = chunks_received and rid = "''abc''" and sock = "''s2''" and data = late_chunk
        and now = 4000 and connected = "{''s1'', ''s2''}"]
    pipeline_broadcasts_handlers_answer_requester
      [where s = summarised and rid = "''abc''" and row = row_recording and d = 4
        and tr = "''hello''" and su = "''greeting''" and v = "[]" and now = 8000]
  show ?thesis by (simp add: prisma_update_def)
qed

text \<open>
  Claim C10 as stated fails in its second half. Session \<open>abc\<close> is owned by socket
  \<open>s1\<close>, which sent its chunks. A chunk for \<open>abc\<close> sent by socket \<open>s2\<close> is buffered
  in the same entry, whose owner stays \<open>s1\<close>; the acknowledgement goes to \<open>s2\<close>, and
  the owning socket is not among its recipients.
\<close>

theorem ack_goes_to_requester_not_owner:
  "map_option socketId (activeRecordings chunks_received ''abc'') = Some ''s1'' \<and>
   map_option socketId (activeRecordings foreign_chunk ''abc'') = Some ''s1'' \<and>
   emitted foreign_chunk =
     emitted chunks_received @ [(ToSocket ''s2'', AudioChunkReceived ''abc'' True)] \<and>
   recipients {''s1'', ''s2''} (ToSocket ''s2'') = {''s2''} \<and>
   ''s1'' \<notin> recipients {''s1'', ''s2''} (ToSocket ''s2'')"
  by (simp add: foreign_chunk_eq chunks_received_eq)

lemma finished_eq:
  "finished =
     \<lparr>activeRecordings = Map.empty,
      recordings = [''abc'' \<mapsto> completed_fields ''hello'' ''greeting'' 4 row_recording],
      emitted =
        [(ToSocket ''s1'', AudioChunkReceived ''abc'' True),
         (ToSocket ''s1'', AudioChunkReceived ''abc'' True),
         (ToSocket ''s1'', AudioChunkReceived ''abc'' True),
         (ToSocket ''s1'', RecordingStatusEvent ''abc'' ''PROCESSING''),
         (ToSocket ''s1'', RecordingStatusEvent ''abc'' ''PROCESSING''),
         (Broadcast, RecordingStatusEvent ''abc'' ''PROCESSING''),
         (Broadcast, TranscriptionUpdate ''abc'' ''hello'' 6000 True),
         (Broadcast, RecordingCompleted ''abc'' ''greeting'' ''hello'' 4)],
      pending = []\<rparr>"
  by (simp add: finished_def summarised_eq chunks_received_eq settle_def emit_def
      prisma_update_def delete_recording_def)




subsection \<open>Durable status\<close>




subsection \<open>Repeated completion signals\<close>

text \<open>
  Claim C1, as the code has it. A \<^verbatim>\<open>complete-recording\<close> that finds the session in
  the registry with at least one buffered chunk starts one invocation of the
  completion pipeline and leaves the registry as it was: the entry is neither removed
  nor drained when the pipeline starts. A second \<^verbatim>\<open>complete-recording\<close> handled right
  after the first therefore starts a second invocation on the same audio. The entry is
  deleted only when an invocation ends: the pipeline head and every continuation that
  parks the invocation again (and the continuations of pause and resume) leave the
  whole registry as it is, and the continuation after a successful final update, and
  the one at the end of the error path, delete the entry of that session and no other.
  A \<^verbatim>\<open>complete-recording\<close> that finds no entry starts nothing and answers its socket
  with a \<^verbatim>\<open>recording-error\<close>.
\<close>

theorem complete_recording_starts_a_run_each_time:
  "(activeRecordings s rid = Some recording \<and> chunks recording \<noteq> [] \<longrightarrow>
      pending (complete_recording sock rid s) =
        pending s @ [AwaitFindUnique rid (startTime recording) (concat (chunks recording))] \<and>
      activeRecordings (complete_recording sock rid s) = activeRecordings s \<and>
      pending (complete_recording sock' rid (complete_recording sock rid s)) =
        pending s @ [AwaitFindUnique rid (startTime recording) (concat (chunks recording)),
                     AwaitFindUnique rid (startTime recording) (concat (chunks recording))]) \<and>
   (activeRecordings s rid = None \<longrightarrow>
      complete_recording sock rid s =
        emit (ToSocket sock)
          (RecordingError rid ''Recording session not found. No audio chunks received.'') s) \<and>
   (recordings s rid = Some row \<longrightarrow>
      activeRecordings (fst (resume (AwaitUpdate rid d tr su) (Fulfilled v) now s)) rid = None) \<and>
   activeRecordings (fst (resume (AwaitErrorUpdate rid e) r now s)) rid = None \<and>
   activeRecordings (processRecordingWithGemini rid s) = activeRecordings s \<and>
   ((\<exists>t'. snd (resume t r now s) = Some t') \<longrightarrow>
      activeRecordings (fst (resume t r now s)) = activeRecordings s) \<and>
   activeRecordings (fst (resume (AwaitPauseUpdate sock rid) r now s)) = activeRecordings s \<and>
   activeRecordings (fst (resume (AwaitResumeUpdate sock rid) r now s)) = activeRecordings s \<and>
   (recordings s rid = Some row \<longrightarrow>
      activeRecordings (fst (resume (AwaitUpdate rid d tr su) (Fulfilled v) now s)) =
        (activeRecordings s)(rid := None)) \<and>
   activeRecordings (fst (resume (AwaitErrorUpdate rid e) r now s)) =
     (activeRecordings s)(rid := None)"
proof -
  have twice: "pending (complete_recording sock' rid (complete_recording sock rid s)) =
      pending s @ [AwaitFindUnique rid (startTime recording) (concat (chunks recording)),
                   AwaitFindUnique rid (startTime recording) (concat (chunks recording))]"
    if entry: "activeRecordings s rid = Some recording" and ne: "chunks recording \<noteq> []"
  proof -
    have "activeRecordings (complete_recording sock rid s) rid = Some recording"
      using entry ne by (simp add: complete_recording_buffered)
    then show ?thesis
      using entry ne by (simp add: complete_recording_buffered)
  qed
  have ended: "activeRecordings (fst (resume (AwaitErrorUpdate rid e) r now s)) =
      (activeRecordings s)(rid := None)"
    by (simp add: emit_def delete_recording_def split: sum.splits)
  have head: "activeRecordings (processRecordingWithGemini rid s) = activeRecordings s"
    by (simp add: processRecordingWithGemini_def emit_def Let_def split: option.splits)
  have parked: "(\<exists>t'. snd (resume t r now s) = Some t') \<longrightarrow>
      activeRecordings (fst (resume t r now s)) = activeRecordings s"
  proof (cases t)
    case (AwaitFindUnique rid' st b)
    then show ?thesis by (cases r) (simp_all split: option.splits)
  next
    case (AwaitTranscribe rid' d' b)
    then show ?thesis by (cases r) (simp_all add: emit_def)
  next
    case (AwaitSummary rid' d' tr')
    then show ?thesis by (cases r) simp_all
  next
    case (AwaitUpdate rid' d' tr' su')
    then show ?thesis by (simp split: sum.splits)
  next
    case (AwaitErrorUpdate rid' e')
    then show ?thesis by (simp add: Let_def)
  next
    case (AwaitPauseUpdate sock' rid')
    then show ?thesis by (simp split: sum.splits)
  next
    case (AwaitResumeUpdate sock' rid')
    then show ?thesis by (simp split: sum.splits)
  qed
  have status_writes:
    "activeRecordings (fst (resume (AwaitPauseUpdate sock rid) r now s)) = activeRecordings s"
    "activeRecordings (fst (resume (AwaitResumeUpdate sock rid) r now s)) = activeRecordings s"
    by (simp_all add: emit_def split: sum.splits)
  have completed: "recordings s rid = Some row \<longrightarrow>
      activeRecordings (fst (resume (AwaitUpdate rid d tr su) (Fulfilled v) now s)) =
        (activeRecordings s)(rid := None)"
    by (simp add: prisma_update_def emit_def delete_recording_def)
  have first: "activeRecordings s rid = Some recording \<and> chunks recording \<noteq> [] \<longrightarrow>
      pending (complete_recording sock rid s) =
        pending s @ [AwaitFindUnique rid (startTime recording) (concat (chunks recording))] \<and>
      activeRecordings (complete_recording sock rid s) = activeRecordings s \<and>
      pending (complete_recording sock' rid (complete_recording sock rid s)) =
        pending s @ [AwaitFindUnique rid (startTime recording) (concat (chunks recording)),
                     AwaitFindUnique rid (startTime recording) (concat (chunks recording))]"
    using twice by (simp add: complete_recording_buffered)
  have completed_entry: "recordings s rid = Some row \<longrightarrow>
      activeRecordings (fst (resume (AwaitUpdate rid d tr su) (Fulfilled v) now s)) rid = None"
    using completed by simp
  have ended_entry: "activeRecordings (fst (resume (AwaitErrorUpdate rid e) r now s)) rid = None"
    using ended by simp
  have absent: "activeRecordings s rid = None \<longrightarrow>
      complete_recording sock rid s =
        emit (ToSocket sock)
          (RecordingError rid ''Recording session not found. No audio chunks received.'') s"
    by (simp add: complete_recording_absent emit_def)
  show ?thesis
    by (intro conjI)
      (rule first absent completed_entry ended_entry head parked status_writes completed
        ended)+
qed

theorem complete_recording_starts_a_run_each_time_witness:
  "pending completing = [AwaitFindUnique ''abc'' 1000 [1, 2, 3, 4, 5]] \<and>
   activeRecordings completing = activeRecordings chunks_received \<and>
   pending completing_twice =
     [AwaitFindUnique ''abc'' 1000 [1, 2, 3, 4, 5], AwaitFindUnique ''abc'' 1000 [1, 2, 3, 4, 5]] \<and>
   activeRecordings (fst (resume (AwaitUpdate ''abc'' 4 ''hello'' ''greeting'') (Fulfilled [])
      8000 summarised)) ''abc'' = None \<and>
   activeRecordings (fst (resume (AwaitFindUnique ''abc'' 1000 [1, 2, 3, 4, 5]) (Fulfilled [])
      5000 completing)) = activeRecordings completing \<and>
   complete_recording ''s1'' ''abc'' finished =
     emit (ToSocket ''s1'')
       (RecordingError ''abc'' ''Recording session not found. No audio chunks received.'')
       finished"
proof -
  have "activeRecordings chunks_received ''abc'' =
      Some \<lparr>socketId = ''s1'', startTime = 1000, chunks = [[1, 2], [3], [4, 5]],
            isPaused = False\<rparr>"
    and "pending chunks_received = []"
    and "recordings summarised ''abc'' = Some row_recording"
    and "activeRecordings finished ''abc'' = None"
    by (simp_all add: chunks_received_eq summarised_eq finished_eq)
  moreover
  have "snd (resume (AwaitFindUnique ''abc'' 1000 [1, 2, 3, 4, 5]) (Fulfilled []) 5000
      completing) = Some (AwaitTranscribe ''abc'' 4 [1, 2, 3, 4, 5])"
    by (simp add: completing_eq chunks_received_eq)
  with complete_recording_starts_a_run_each_time
      [where s = completing and t = "AwaitFindUnique ''abc'' 1000 [1, 2, 3, 4, 5]"
        and r = "Fulfilled []" and now = 5000]
  have "activeRecordings (fst (resume (AwaitFindUnique ''abc'' 1000 [1, 2, 3, 4, 5])
      (Fulfilled []) 5000 completing)) = activeRecordings completing"
    by blast
  moreover
  note complete_recording_starts_a_run_each_time
      [where s = chunks_received and rid = "''abc''" and sock = "''s1''" and sock' = "''s1''"
        and recording = "\<lparr>socketId = ''s1'', startTime = 1000,
          chunks = [[1, 2], [3], [4, 5]], isPaused = False\<rparr>"]
    complete_recording_starts_a_run_each_time
      [where s = summarised and rid = "''abc''" and row = row_recording and d = 4
        and tr = "''hello''" and su = "''greeting''" and v = "[]" and now = 8000]
    complete_recording_starts_a_run_each_time
      [where s = finished and rid = "''abc''" and sock = "''s1''"]
  ultimately show ?thesis
    by (simp add: completing_def [symmetric] completing_twice_def)
qed

text \<open>
  Claim C1 as stated fails. After the first \<^verbatim>\<open>complete-recording\<close> for \<open>abc\<close> the
  registry still holds the session with its three chunks; the second one, handled
  next, is not a no-op but parks a second invocation; and when both have run, the
  clients have received two \<^verbatim>\<open>recording-completed\<close> events and the record has been
  written twice (the duration is the second invocation's).
\<close>

theorem second_complete_starts_second_run:
  "map_option chunks (activeRecordings completing ''abc'') = Some [[1, 2], [3], [4, 5]] \<and>
   pending completing = [AwaitFindUnique ''abc'' 1000 [1, 2, 3, 4, 5]] \<and>
   pending completing_twice =
     [AwaitFindUnique ''abc'' 1000 [1, 2, 3, 4, 5], AwaitFindUnique ''abc'' 1000 [1, 2, 3, 4, 5]] \<and>
   emitted both_finished =
     [(ToSocket ''s1'', AudioChunkReceived ''abc'' True),
      (ToSocket ''s1'', AudioChunkReceived ''abc'' True),
      (ToSocket ''s1'', AudioChunkReceived ''abc'' True),
      (ToSocket ''s1'', RecordingStatusEvent ''abc'' ''PROCESSING''),
      (ToSocket ''s1'', RecordingStatusEvent ''abc'' ''PROCESSING''),
      (Broadcast, RecordingStatusEvent ''abc'' ''PROCESSING''),
      (ToSocket ''s1'', RecordingStatusEvent ''abc'' ''PROCESSING''),
      (Broadcast, RecordingStatusEvent ''abc'' ''PROCESSING''),
      (Broadcast, TranscriptionUpdate ''abc'' ''hello'' 6000 True),
      (Broadcast, RecordingCompleted ''abc'' ''greeting'' ''hello'' 4),
      (Broadcast, TranscriptionUpdate ''abc'' ''hello'' 8200 True),
      (Broadcast, RecordingCompleted ''abc'' ''greeting'' ''hello'' 7)] \<and>
   map_option duration (recordings both_finished ''abc'') = Some (Some 7)"
proof -
  have twice: "completing_twice =
      completing\<lparr>emitted := emitted completing @
          [(ToSocket ''s1'', RecordingStatusEvent ''abc'' ''PROCESSING''),
           (Broadcast, RecordingStatusEvent ''abc'' ''PROCESSING'')],
        pending := [AwaitFindUnique ''abc'' 1000 [1, 2, 3, 4, 5],
                    AwaitFindUnique ''abc'' 1000 [1, 2, 3, 4, 5]]\<rparr>"
    unfolding completing_twice_def
    by (subst complete_recording_buffered
          [where recording = "\<lparr>socketId = ''s1'', startTime = 1000,
             chunks = [[1, 2], [3], [4, 5]], isPaused = False\<rparr>"])
       (simp_all add: completing_eq chunks_received_eq)
  show ?thesis
    by (simp add: both_finished_def twice completing_eq chunks_received_eq settle_def emit_def
        prisma_update_def delete_recording_def completed_fields_def row_recording_def)
qed

subsection \<open>The whole scenario\<close>

text \<open>
  Claim C3, as the code has it. A session not yet in the registry, with a durable
  record, sends three chunks flagged \<open>false, false, true\<close> and then
  \<^verbatim>\<open>complete-recording\<close>; the record is found, both adapter calls and the final update
  succeed, and the clock does not run backwards. Then the coordinator has emitted, in
  this order: three chunk acknowledgements and one \<^verbatim>\<open>recording-status\<close> PROCESSING to
  the socket (for the final chunk), a second PROCESSING to the socket (from the
  \<^verbatim>\<open>complete-recording\<close> handler), a third PROCESSING as a broadcast (from the
  pipeline), one \<^verbatim>\<open>transcription-update\<close> and exactly one \<^verbatim>\<open>recording-completed\<close>,
  which carries the transcript and the summary exactly as the adapter returned them and
  a duration of whole seconds since the first chunk, not negative. Afterwards the
  registry has no entry for the session, no invocation is pending, and the record is
  COMPLETED with the same transcript, summary and duration.
\<close>

theorem three_chunks_then_complete:
  assumes "rid \<noteq> []" and "tbl rid = Some row" and "ta \<le> tf"
  shows
  "(let s1 = audio_chunk sock \<lparr>recordingId = rid, chunk = ca, isFinal = False\<rparr> ta (started tbl);
        s2 = audio_chunk sock \<lparr>recordingId = rid, chunk = cb, isFinal = False\<rparr> tb s1;
        s3 = audio_chunk sock \<lparr>recordingId = rid, chunk = cc, isFinal = True\<rparr> tc s2;
        s4 = complete_recording sock rid s3;
        s5 = settle 0 (Fulfilled va) tf s4;
        s6 = settle 0 (Fulfilled tr) tt s5;
        s7 = settle 0 (Fulfilled su) ts s6;
        s8 = settle 0 (Fulfilled vb) tu s7
    in emitted s8 =
         [(ToSocket sock, AudioChunkReceived rid True),
          (ToSocket sock, AudioChunkReceived rid True),
          (ToSocket sock, AudioChunkReceived rid True),
          (ToSocket sock, RecordingStatusEvent rid ''PROCESSING''),
          (ToSocket sock, RecordingStatusEvent rid ''PROCESSING''),
          (Broadcast, RecordingStatusEvent rid ''PROCESSING''),
          (Broadcast, TranscriptionUpdate rid tr tt True),
          (Broadcast, RecordingCompleted rid su tr ((tf - ta) div 1000))] \<and>
       0 \<le> (tf - ta) div 1000 \<and>
       activeRecordings s8 rid = None \<and> pending s8 = [] \<and>
       recordings s8 rid = Some (completed_fields tr su ((tf - ta) div 1000) row))"
  unfolding Let_def using assms
  by (simp add: Let_def started_def audio_chunk_def emit_def complete_recording_def
      processRecordingWithGemini_def settle_def prisma_update_def delete_recording_def)

theorem three_chunks_then_complete_witness:
  "emitted finished =
     [(ToSocket ''s1'', AudioChunkReceived ''abc'' True),
      (ToSocket ''s1'', AudioChunkReceived ''abc'' True),
      (ToSocket ''s1'', AudioChunkReceived ''abc'' True),
      (ToSocket ''s1'', RecordingStatusEvent ''abc'' ''PROCESSING''),
      (ToSocket ''s1'', RecordingStatusEvent ''abc'' ''PROCESSING''),
      (Broadcast, RecordingStatusEvent ''abc'' ''PROCESSING''),
      (Broadcast, TranscriptionUpdate ''abc'' ''hello'' 6000 True),
      (Broadcast, RecordingCompleted ''abc'' ''greeting'' ''hello'' 4)] \<and>
   activeRecordings finished ''abc'' = None \<and> pending finished = [] \<and>
   recordings finished ''abc'' = Some (completed_fields ''hello'' ''greeting'' 4 row_recording)"
proof -
  have hyps: "''abc'' \<noteq> []" "[''abc'' \<mapsto> row_recording] ''abc'' = Some row_recording"
    "(1000::int) \<le> 5000"
    by simp_all
  from hyps three_chunks_then_complete
    [where rid = "''abc''" and tbl = "[''abc'' \<mapsto> row_recording]" and row = row_recording
      and ta = 1000 and tf = 5000 and sock = "''s1''" and ca = "[1, 2]" and cb = "[3]" and cc = "[4, 5]"
      and tb = 2000 and tc = 3000 and va = "[]" and tr = "''hello''" and tt = 6000
      and su = "''greeting''" and ts = 7000 and vb = "[]" and tu = 8000]
  show ?thesis
    by (simp add: Let_def finished_def summarised_def completing_def chunks_received_def
        three_chunks_def)
qed

text \<open>
  Claim C3 as stated fails: in the scenario three \<^verbatim>\<open>recording-status\<close> events with
  status PROCESSING are emitted, not one.
\<close>

theorem three_processing_status_events:
  "count_list (map snd (emitted finished)) (RecordingStatusEvent ''abc'' ''PROCESSING'') = 3"
  by (simp add: finished_eq)

subsection \<open>Failures inside the pipeline\<close>

text \<open>
  Claim C5, as the code has it. The final update is awaited inside the \<^verbatim>\<open>try\<close>
  block, before \<^verbatim>\<open>recording-completed\<close> is emitted. When it rejects after both
  adapter calls succeeded, the invocation enters its \<^verbatim>\<open>catch\<close> block: whatever
  becomes of the error update attempted there, the only event the invocation emits
  from then on is one broadcast \<^verbatim>\<open>recording-error\<close> carrying the message of the
  rejected write; no \<^verbatim>\<open>recording-completed\<close> is emitted, the registry entry is
  deleted and the invocation ends.
\<close>

theorem failed_write_yields_error_event:
  assumes "i < length (pending s)" and "pending s ! i = AwaitUpdate rid d tr su"
  shows "emitted (settle i r now' (settle i (Rejected e) now s)) =
           emitted s @ [(Broadcast, RecordingError rid (message_or e ''Processing failed''))] \<and>
         activeRecordings (settle i r now' (settle i (Rejected e) now s)) rid = None \<and>
         pending (settle i r now' (settle i (Rejected e) now s)) =
           take i (pending s) @ drop (Suc i) (pending s)"
proof -
  have first: "settle i (Rejected e) now s =
      s\<lparr>pending := (pending s)[i := AwaitErrorUpdate rid e]\<rparr>"
    using assms by (simp add: settle_def prisma_update_def)
  show ?thesis
    unfolding first using assms(1)
    by (simp add: settle_def emit_def delete_recording_def split: sum.splits)
qed

theorem failed_write_yields_error_event_witness:
  "emitted write_failed =
     emitted summarised @ [(Broadcast, RecordingError ''abc'' ''Connection lost'')] \<and>
   activeRecordings write_failed ''abc'' = None \<and> pending write_failed = []"
proof -
  have "0 < length (pending summarised)"
    and "pending summarised ! 0 = AwaitUpdate ''abc'' 4 ''hello'' ''greeting''"
    by (simp_all add: summarised_eq)
  from failed_write_yields_error_event
    [OF this, of "Rejected (Error ''Connection lost'')" 8100 "Error ''Connection lost''" 8000]
  show ?thesis
    by (simp add: write_failed_def summarised_eq)
qed

text \<open>
  Claim C5 as stated fails. Transcript and summary have been computed; the final
  update rejects. The events emitted end with a \<^verbatim>\<open>recording-error\<close>, the computed
  result is not among them, and the record is as it was before.
\<close>

theorem failed_write_suppresses_completed:
  "pending summarised = [AwaitUpdate ''abc'' 4 ''hello'' ''greeting''] \<and>
   emitted write_failed =
     [(ToSocket ''s1'', AudioChunkReceived ''abc'' True),
      (ToSocket ''s1'', AudioChunkReceived ''abc'' True),
      (ToSocket ''s1'', AudioChunkReceived ''abc'' True),
      (ToSocket ''s1'', RecordingStatusEvent ''abc'' ''PROCESSING''),
      (ToSocket ''s1'', RecordingStatusEvent ''abc'' ''PROCESSING''),
      (Broadcast, RecordingStatusEvent ''abc'' ''PROCESSING''),
      (Broadcast, TranscriptionUpdate ''abc'' ''hello'' 6000 True),
      (Broadcast, RecordingError ''abc'' ''Connection lost'')] \<and>
   RecordingCompleted ''abc'' ''greeting'' ''hello'' 4 \<notin> set (map snd (emitted write_failed)) \<and>
   pending write_failed = [] \<and>
   recordings write_failed ''abc'' = Some row_recording"
  by (simp add: write_failed_def summarised_eq chunks_received_eq settle_def emit_def
      prisma_update_def delete_recording_def)

text \<open>
  Claim C6, as the code has it. A rejection of the transcription or of the summary
  call enters the \<^verbatim>\<open>catch\<close> block with the thrown value. The \<^verbatim>\<open>recording-error\<close>
  then broadcast carries the exception's message itself (the fixed text
  \<open>Processing failed\<close> only when the thrown value is not an \<^verbatim>\<open>Error\<close>). When the error
  update reaches the record, the transcript field holds a fixed text and the summary
  field holds \<open>Processing failed: \<close> followed by the exception's message itself.
\<close>

theorem error_event_carries_exception_message:
  "resume (AwaitTranscribe rid d b) (Rejected e) now s = (s, Some (AwaitErrorUpdate rid e)) \<and>
   resume (AwaitSummary rid d tr) (Rejected e) now s = (s, Some (AwaitErrorUpdate rid e)) \<and>
   emitted (fst (resume (AwaitErrorUpdate rid (Error m)) r now s)) =
     emitted s @ [(Broadcast, RecordingError rid m)] \<and>
   emitted (fst (resume (AwaitErrorUpdate rid NonError) r now s)) =
     emitted s @ [(Broadcast, RecordingError rid ''Processing failed'')] \<and>
   (recordings s rid = Some row \<longrightarrow>
      recordings (fst (resume (AwaitErrorUpdate rid (Error m)) (Fulfilled v) now s)) rid =
        Some (row\<lparr>status := COMPLETED,
                  transcript := Some ''Error: Failed to transcribe audio. Please check server logs.'',
                  summary := Some (''Processing failed: '' @ m)\<rparr>))"
  by (simp add: emit_def delete_recording_def prisma_update_def error_fields_def
      split: sum.splits)

theorem error_event_carries_exception_message_witness:
  "emitted transcribe_failed =
     emitted completing @
       [(Broadcast, RecordingError ''abc'' ''API key not valid: AIza-secret'')] \<and>
   recordings transcribe_failed ''abc'' =
     Some (row_recording\<lparr>status := COMPLETED,
        transcript := Some ''Error: Failed to transcribe audio. Please check server logs.'',
        summary := Some (''Processing failed: '' @ ''API key not valid: AIza-secret'')\<rparr>)"
proof -
  let ?waiting = "completing\<lparr>pending := [AwaitTranscribe ''abc'' 4 [1, 2, 3, 4, 5]]\<rparr>"
  let ?caught = "completing\<lparr>pending :=
      [AwaitErrorUpdate ''abc'' (Error ''API key not valid: AIza-secret'')]\<rparr>"
  have found: "settle 0 (Fulfilled []) 5000 completing = ?waiting"
    by (simp add: completing_eq chunks_received_eq settle_def)
  have row: "recordings ?caught ''abc'' = Some row_recording"
    by (simp add: completing_eq chunks_received_eq)
  from error_event_carries_exception_message
    [where rid = "''abc''" and d = 4 and b = "[1, 2, 3, 4, 5]"
      and e = "Error ''API key not valid: AIza-secret''" and now = 6000 and s = ?waiting]
  have rejected: "settle 0 (Rejected (Error ''API key not valid: AIza-secret'')) 6000 ?waiting =
      ?caught"
    by (simp add: settle_def)
  from row error_event_carries_exception_message
    [where rid = "''abc''" and m = "''API key not valid: AIza-secret''" and s = ?caught
      and row = row_recording and v = "[]" and now = 6100 and r = "Fulfilled []"]
  have "emitted (settle 0 (Fulfilled []) 6100 ?caught) =
      emitted completing @
        [(Broadcast, RecordingError ''abc'' ''API key not valid: AIza-secret'')]"
    and "recordings (settle 0 (Fulfilled []) 6100 ?caught) ''abc'' =
      Some (row_recording\<lparr>status := COMPLETED,
        transcript := Some ''Error: Failed to transcribe audio. Please check server logs.'',
        summary := Some (''Processing failed: '' @ ''API key not valid: AIza-secret'')\<rparr>)"
    by (simp_all add: settle_def split: prod.splits)
  then show ?thesis
    by (simp add: transcribe_failed_def found rejected)
qed

text \<open>
  Claim C6 as stated fails. The adapter rejects with an internal message; the same
  text is the \<^verbatim>\<open>error\<close> of the \<^verbatim>\<open>recording-error\<close> broadcast to the clients, and
  it is stored, after a fixed prefix, in the record's summary.
\<close>

theorem raw_exception_message_forwarded:
  "last (emitted transcribe_failed) =
     (Broadcast, RecordingError ''abc'' ''API key not valid: AIza-secret'') \<and>
   map_option summary (recordings transcribe_failed ''abc'') =
     Some (Some ''Processing failed: API key not valid: AIza-secret'') \<and>
   map_option transcript (recordings transcribe_failed ''abc'') =
     Some (Some ''Error: Failed to transcribe audio. Please check server logs.'')"
  by (simp add: transcribe_failed_def completing_eq chunks_received_eq settle_def emit_def
      prisma_update_def delete_recording_def error_fields_def)

subsection \<open>Chunks after the completion signal\<close>




subsection \<open>The periodic clean-up\<close>

lemma periodic_cleanup_keeps:
  "activeRecordings s rid = Some recording \<Longrightarrow>
   t + (int n - 1) * cleanup_interval - 3600000 \<le> startTime recording \<Longrightarrow>
   activeRecordings (periodic_cleanup t n s) rid = Some recording"
proof (induction n arbitrary: t s)
  case 0
  then show ?case by simp
next
  case (Suc n)
  have "t - 3600000 \<le> t + int n * cleanup_interval - 3600000"
    by (simp add: cleanup_interval_def)
  with Suc.prems have kept: "activeRecordings (cleanup t s) rid = Some recording"
    by (simp add: cleanup_def)
  from Suc.prems(2)
  have "t + cleanup_interval + (int n - 1) * cleanup_interval - 3600000 \<le> startTime recording"
    by (simp add: algebra_simps)
  from Suc.IH [OF kept this] show ?case by simp
qed

text \<open>
  Claim C9, as the code has it. The sweep, which the timer starts every 60 seconds,
  deletes exactly the entries whose
  \<^verbatim>\<open>startTime\<close> is more than one hour (3600000 ms) before the time of the sweep, and
  leaves every other entry, the table, the events and the pending invocations as they
  are. \<^verbatim>\<open>startTime\<close> is the arrival time of the session's first chunk: a later chunk
  does not change it. The sweep thus goes by the age of the session, not by how long
  it has been idle.
\<close>

theorem cleanup_by_start_time:
  "activeRecordings (cleanup now s) rid =
     (case activeRecordings s rid of
        None \<Rightarrow> None
      | Some recording \<Rightarrow>
          if startTime recording < now - 3600000 then None else Some recording) \<and>
   recordings (cleanup now s) = recordings s \<and>
   emitted (cleanup now s) = emitted s \<and>
   pending (cleanup now s) = pending s \<and>
   (recordingId d \<noteq> [] \<and> activeRecordings s (recordingId d) = Some recording \<longrightarrow>
      map_option startTime (activeRecordings (audio_chunk sock d t s) (recordingId d)) =
        Some (startTime recording)) \<and>
   cleanup_interval = 60 * 1000"
  by (simp add: cleanup_def audio_chunk_entry cleanup_interval_def)

theorem cleanup_by_start_time_witness:
  "activeRecordings (cleanup 3601000 chunks_received) ''abc'' =
     activeRecordings chunks_received ''abc'' \<and>
   activeRecordings (cleanup 3601001 chunks_received) ''abc'' = None \<and>
   map_option startTime (activeRecordings (audio_chunk ''s1'' late_chunk 3601000 chunks_received)
     ''abc'') = Some 1000"
proof -
  have "activeRecordings chunks_received ''abc'' =
      Some \<lparr>socketId = ''s1'', startTime = 1000, chunks = [[1, 2], [3], [4, 5]],
            isPaused = False\<rparr>"
    and "recordingId late_chunk = ''abc''"
    by (simp_all add: chunks_received_eq late_chunk_def)
  with cleanup_by_start_time [of 3601000 chunks_received "''abc''"]
    cleanup_by_start_time
      [of 3601001 chunks_received "''abc''" late_chunk
        "\<lparr>socketId = ''s1'', startTime = 1000, chunks = [[1, 2], [3], [4, 5]],
          isPaused = False\<rparr>" "''s1''" 3601000]
  show ?thesis by simp
qed

text \<open>
  Claim C9 as stated fails. The first chunk of \<open>abc\<close> arrives at time 0. The sixty
  sweeps from 1 ms to 3540001 ms, one every 60 seconds, keep the session; a chunk
  arrives at 3600000 ms and is buffered; the next sweep, at 3600001 ms, removes the
  session, which has then been idle for one millisecond.
\<close>

theorem active_session_swept:
  "activeRecordings first_hour ''abc'' =
     Some \<lparr>socketId = ''s1'', startTime = 0, chunks = [[1]], isPaused = False\<rparr> \<and>
   activeRecordings long_session ''abc'' =
     Some \<lparr>socketId = ''s1'', startTime = 0, chunks = [[1], [2]], isPaused = False\<rparr> \<and>
   1 + 60 * cleanup_interval = 3600001 \<and>
   activeRecordings (cleanup (1 + 60 * cleanup_interval) long_session) ''abc'' = None"
proof -
  have kept: "activeRecordings first_hour ''abc'' =
      Some \<lparr>socketId = ''s1'', startTime = 0, chunks = [[1]], isPaused = False\<rparr>"
    unfolding first_hour_def
    by (rule periodic_cleanup_keeps)
      (simp_all add: started_def audio_chunk_def emit_def cleanup_interval_def)
  then have buffered: "activeRecordings long_session ''abc'' =
      Some \<lparr>socketId = ''s1'', startTime = 0, chunks = [[1], [2]], isPaused = False\<rparr>"
    by (simp add: long_session_def audio_chunk_entry)
  then have "activeRecordings (cleanup (1 + 60 * cleanup_interval) long_session) ''abc'' = None"
    by (simp add: cleanup_def cleanup_interval_def)
  with kept buffered show ?thesis
    by (simp add: cleanup_interval_def)
qed

end
